theory Spec2Isabelle
  imports Main "HOL-Library.Sublist"
begin

section \<open>Salesforce session revocation: the action and its lifecycle callbacks\<close>

text \<open>
  The repository holds the action twice: the bundled build \<^verbatim>\<open>dist/index.js\<close> and the
  module source (the file importing \<^verbatim>\<open>@sgnl-actions/utils\<close>).  Both export \<^verbatim>\<open>invoke\<close>,
  \<^verbatim>\<open>error\<close> and \<^verbatim>\<open>halt\<close>.  The body of the \<^verbatim>\<open>try\<close> block of \<^verbatim>\<open>invoke\<close> is the same text in
  both, up to the API version (a parameter in the bundle, the constant \<^verbatim>\<open>v61.0\<close> in the
  module), the way a request is built, and the extra \<^verbatim>\<open>address\<close> field of the module's
  result.  The embedding therefore has one definition per step of that body, taking the
  API caller as an argument, and one \<^verbatim>\<open>invoke\<close> per file around it.

  JavaScript strings are modelled as byte strings (their UTF-8 encoding), a value that
  may be \<^verbatim>\<open>undefined\<close> as an option, a thrown value as \<open>Inl\<close> of a sum, and the effects
  (outbound requests, console output, timers) as an explicit \<open>world\<close> that every
  operation returns updated.
\<close>

subsection \<open>JavaScript values\<close>

datatype error = Error (message: string)

text \<open>Truthiness of a value that is a string or \<^verbatim>\<open>undefined\<close>.\<close>

definition truthy :: "string option \<Rightarrow> bool" where
  "truthy v = (case v of None \<Rightarrow> False | Some s \<Rightarrow> s \<noteq> [])"

text \<open>Interpolation of such a value in a template literal.\<close>

definition js_str :: "string option \<Rightarrow> string" where
  "js_str v = (case v of None \<Rightarrow> ''undefined'' | Some s \<Rightarrow> s)"

text \<open>Interpolation of a number: its decimal digits.\<close>

fun show_nat :: "nat \<Rightarrow> string" where
  "show_nat n =
     (if n < 10 then [''0123456789'' ! n]
      else show_nat (n div 10) @ [''0123456789'' ! (n mod 10)])"

declare show_nat.simps [simp del]

definition show_int :: "int \<Rightarrow> string" where
  "show_int i = (if i < 0 then CHR ''-'' # show_nat (nat (- i)) else show_nat (nat i))"

text \<open>\<^verbatim>\<open>s.includes(t)\<close>: \<open>t\<close> occurs in \<open>s\<close> as a contiguous run.\<close>

fun js_includes :: "string \<Rightarrow> string \<Rightarrow> bool" where
  "js_includes [] t = (t = [])"
| "js_includes (c # cs) t = (prefix t (c # cs) \<or> js_includes cs t)"

text \<open>
  \<^verbatim>\<open>encodeURIComponent\<close>: every byte other than an ASCII letter, a digit or one of
  \<^verbatim>\<open>- _ . ! ~ * ' ( )\<close> is replaced by \<^verbatim>\<open>%\<close> and its two upper-case hexadecimal digits.
\<close>

definition uri_unreserved :: "char \<Rightarrow> bool" where
  "uri_unreserved c =
     (c \<in> set (''ABCDEFGHIJKLMNOPQRSTUVWXYZ'' @ ''abcdefghijklmnopqrstuvwxyz''
               @ ''0123456789'' @ ''-_.!~*'()''))"

definition hex_digit :: "nat \<Rightarrow> char" where
  "hex_digit n = ''0123456789ABCDEF'' ! n"

definition encode_char :: "char \<Rightarrow> string" where
  "encode_char c =
     (if uri_unreserved c then [c]
      else [CHR ''%'', hex_digit (of_char c div 16), hex_digit (of_char c mod 16)])"

definition encodeURIComponent :: "string \<Rightarrow> string" where
  "encodeURIComponent s = concat (map encode_char s)"

subsection \<open>The platform: requests, responses, console, timers\<close>

text \<open>
  A record of a query result; only its \<^verbatim>\<open>Id\<close> is read.  The body of a response, as
  \<^verbatim>\<open>await response.json()\<close> gives it: the call throws, or yields an object whose
  \<^verbatim>\<open>records\<close> field is absent or an array of records.
\<close>

record sobject =
  sobject_Id :: string

datatype json = JsonThrows error | JsonObject "sobject list option"

record response =
  ok :: bool
  resp_status :: nat
  statusText :: string
  json_body :: json

text \<open>
  The target of a request: the string handed to \<^verbatim>\<open>fetch\<close> (module source), or the
  \<^verbatim>\<open>new URL(endpoint, base)\<close> built by the bundle, whose normal form the platform computes.
\<close>

datatype target = Href string | URL string string

record request =
  req_url :: target
  req_method :: string
  req_headers :: "(string \<times> string) list"

datatype level = LOG | WARN | ERROR

record world =
  calls :: "request list"
  console :: "(level \<times> string) list"
  timers :: "nat list"

text \<open>
  The environment of one run: what the platform answers to the \<open>i\<close>-th call (a fault,
  which includes the \<^verbatim>\<open>TypeError\<close> of an invalid URL, or a response), and the clock.
  The field \<open>calls\<close> of the world lists the requests handed to the platform, in order;
  a request of the bundle whose URL the platform rejects is listed as well, so that a
  world with no new entry is one with no outbound request.
\<close>

record env =
  fetch :: "nat \<Rightarrow> request \<Rightarrow> error + response"
  now :: string

definition console_log :: "string \<Rightarrow> world \<Rightarrow> world" where
  "console_log m w = w\<lparr>console := console w @ [(LOG, m)]\<rparr>"

definition console_warn :: "string \<Rightarrow> world \<Rightarrow> world" where
  "console_warn m w = w\<lparr>console := console w @ [(WARN, m)]\<rparr>"

definition console_error :: "string \<Rightarrow> world \<Rightarrow> world" where
  "console_error m w = w\<lparr>console := console w @ [(ERROR, m)]\<rparr>"

definition warnings :: "world \<Rightarrow> string list" where
  "warnings w = map snd (filter (\<lambda>e. fst e = WARN) (console w))"

definition do_fetch :: "env \<Rightarrow> request \<Rightarrow> world \<Rightarrow> (error + response) \<times> world" where
  "do_fetch E req w = (fetch E (length (calls w)) req, w\<lparr>calls := calls w @ [req]\<rparr>)"

subsection \<open>callSalesforceAPI\<close>

definition api_headers :: "string \<Rightarrow> (string \<times> string) list" where
  "api_headers authorization =
     [(''Authorization'', authorization), (''Accept'', ''application/json''),
      (''Content-Type'', ''application/json'')]"

text \<open>Bundle: \<^verbatim>\<open>new URL(endpoint, instanceUrl)\<close> and a bearer token.\<close>

definition dist_request :: "string \<Rightarrow> string \<Rightarrow> string \<Rightarrow> string \<Rightarrow> request" where
  "dist_request instanceUrl accessToken endpoint method =
     \<lparr>req_url = URL endpoint instanceUrl, req_method = method,
      req_headers = api_headers (''Bearer '' @ accessToken)\<rparr>"

definition callSalesforceAPI_dist ::
  "env \<Rightarrow> string \<Rightarrow> string \<Rightarrow> string \<Rightarrow> string \<Rightarrow> world \<Rightarrow> (error + response) \<times> world" where
  "callSalesforceAPI_dist E endpoint method instanceUrl accessToken w =
     do_fetch E (dist_request instanceUrl accessToken endpoint method) w"

text \<open>Module source: the base URL followed by the endpoint, and a ready header.\<close>

definition script_request :: "string \<Rightarrow> string \<Rightarrow> string \<Rightarrow> string \<Rightarrow> request" where
  "script_request baseUrl authHeader endpoint method =
     \<lparr>req_url = Href (baseUrl @ endpoint), req_method = method,
      req_headers = api_headers authHeader\<rparr>"

definition callSalesforceAPI ::
  "env \<Rightarrow> string \<Rightarrow> string \<Rightarrow> string \<Rightarrow> string \<Rightarrow> world \<Rightarrow> (error + response) \<times> world" where
  "callSalesforceAPI E endpoint method baseUrl authHeader w =
     do_fetch E (script_request baseUrl authHeader endpoint method) w"

subsection \<open>invoke: the three steps\<close>

record result =
  status :: string
  username :: "string option"
  userId :: string
  sessionsRevoked :: int
  processed_at :: string
  address :: "string option"

type_synonym api = "string \<Rightarrow> string \<Rightarrow> world \<Rightarrow> (error + response) \<times> world"

text \<open>The single quote that delimits a literal in the query language.\<close>

definition apostrophe :: string where
  "apostrophe = [CHR 0x27]"

definition userQueryEndpoint :: "string \<Rightarrow> string \<Rightarrow> string" where
  "userQueryEndpoint apiVersion encodedUsername =
     ''/services/data/'' @ apiVersion
       @ ''/query?q=SELECT+Id+FROM+User+WHERE+username+LIKE+'' @ apostrophe
       @ encodedUsername @ apostrophe @ ''+ORDER+BY+Id+ASC''"

definition sessionQueryEndpoint :: "string \<Rightarrow> string \<Rightarrow> string" where
  "sessionQueryEndpoint apiVersion uid =
     ''/services/data/'' @ apiVersion
       @ ''/query?q=SELECT+Id,UsersId+FROM+AuthSession+WHERE+UsersId='' @ apostrophe
       @ uid @ apostrophe @ ''+AND+IsCurrent=false+ORDER+BY+Id+ASC''"

definition deleteEndpoint :: "string \<Rightarrow> sobject \<Rightarrow> string" where
  "deleteEndpoint apiVersion session =
     ''/services/data/'' @ apiVersion @ ''/sobjects/AuthSession/'' @ sobject_Id session"

text \<open>One round of the loop of step 3, with its own \<^verbatim>\<open>try\<close>/\<^verbatim>\<open>catch\<close>.\<close>

definition failed_warning :: "sobject \<Rightarrow> response \<Rightarrow> string" where
  "failed_warning session r =
     ''Failed to revoke session '' @ sobject_Id session @ '': ''
       @ show_nat (resp_status r) @ '' '' @ statusText r"

definition error_warning :: "sobject \<Rightarrow> error \<Rightarrow> string" where
  "error_warning session e =
     ''Error revoking session '' @ sobject_Id session @ '': '' @ message e"

definition revoke_one :: "api \<Rightarrow> string \<Rightarrow> sobject \<Rightarrow> int \<Rightarrow> world \<Rightarrow> int \<times> world" where
  "revoke_one call apiVersion session n w =
     (case call (deleteEndpoint apiVersion session) ''DELETE'' w of
        (Inr deleteResponse, w1) \<Rightarrow>
          if resp_status deleteResponse = 204 \<or> resp_status deleteResponse = 404
          then (n + 1, console_log (''Successfully revoked session: '' @ sobject_Id session) w1)
          else if \<not> ok deleteResponse
          then (n, console_warn (failed_warning session deleteResponse) w1)
          else (n + 1, console_log (''Successfully revoked session: '' @ sobject_Id session) w1)
      | (Inl sessionError, w1) \<Rightarrow>
          (n, console_warn (error_warning session sessionError) w1))"

fun revoke_loop :: "api \<Rightarrow> string \<Rightarrow> sobject list \<Rightarrow> int \<Rightarrow> world \<Rightarrow> int \<times> world" where
  "revoke_loop call apiVersion [] n w = (n, w)"
| "revoke_loop call apiVersion (session # rest) n w =
     (case revoke_one call apiVersion session n w of
        (n', w') \<Rightarrow> revoke_loop call apiVersion rest n' w')"

definition step3 ::
  "env \<Rightarrow> api \<Rightarrow> string \<Rightarrow> string option \<Rightarrow> string option \<Rightarrow> string \<Rightarrow> sobject list
     \<Rightarrow> world \<Rightarrow> (error + result) \<times> world" where
  "step3 E call apiVersion uname addr uid sessions w =
     (case revoke_loop call apiVersion sessions 0
             (console_log ''Step 3: Revoking sessions...'' w) of
        (revoked, w1) \<Rightarrow>
          (Inr \<lparr>status = ''success'', username = uname, userId = uid,
                sessionsRevoked = revoked, processed_at = now E, address = addr\<rparr>,
           console_log (''Successfully revoked '' @ show_int revoked @ '' out of ''
                          @ show_nat (length sessions) @ '' sessions'') w1))"

definition step2 ::
  "env \<Rightarrow> api \<Rightarrow> string \<Rightarrow> string option \<Rightarrow> string option \<Rightarrow> string
     \<Rightarrow> world \<Rightarrow> (error + result) \<times> world" where
  "step2 E call apiVersion uname addr uid w =
     (case call (sessionQueryEndpoint apiVersion uid) ''GET''
             (console_log ''Step 2: Querying for user sessions...'' w) of
        (Inl e, w1) \<Rightarrow> (Inl e, w1)
      | (Inr sessionResponse, w1) \<Rightarrow>
          if \<not> ok sessionResponse
          then (Inl (Error (''Failed to query sessions: ''
                     @ show_nat (resp_status sessionResponse) @ '' ''
                     @ statusText sessionResponse)), w1)
          else
            (case json_body sessionResponse of
               JsonThrows e \<Rightarrow> (Inl e, w1)
             | JsonObject records \<Rightarrow>
                 (let sessions = (case records of None \<Rightarrow> [] | Some rs \<Rightarrow> rs);
                      w2 = console_log (''Found '' @ show_nat (length sessions)
                                          @ '' sessions to revoke'') w1
                  in if length sessions = 0
                     then (Inr \<lparr>status = ''success'', username = uname, userId = uid,
                                 sessionsRevoked = 0, processed_at = now E, address = addr\<rparr>,
                           console_log ''No sessions found to revoke'' w2)
                     else step3 E call apiVersion uname addr uid sessions w2)))"

definition step1 ::
  "env \<Rightarrow> api \<Rightarrow> string \<Rightarrow> string option \<Rightarrow> string option
     \<Rightarrow> world \<Rightarrow> (error + result) \<times> world" where
  "step1 E call apiVersion uname addr w =
     (case call (userQueryEndpoint apiVersion (encodeURIComponent (js_str uname))) ''GET''
             (console_log ''Step 1: Querying for user ID...'' w) of
        (Inl e, w1) \<Rightarrow> (Inl e, w1)
      | (Inr userResponse, w1) \<Rightarrow>
          if \<not> ok userResponse
          then (Inl (Error (''Failed to query user: ''
                     @ show_nat (resp_status userResponse) @ '' ''
                     @ statusText userResponse)), w1)
          else
            (case json_body userResponse of
               JsonThrows e \<Rightarrow> (Inl e, w1)
             | JsonObject None \<Rightarrow> (Inl (Error (''User not found: '' @ js_str uname)), w1)
             | JsonObject (Some []) \<Rightarrow> (Inl (Error (''User not found: '' @ js_str uname)), w1)
             | JsonObject (Some (user # _)) \<Rightarrow>
                 step2 E call apiVersion uname addr (sobject_Id user)
                   (console_log (''Found user ID: '' @ sobject_Id user) w1)))"

text \<open>The \<^verbatim>\<open>try\<close> block with its \<^verbatim>\<open>catch\<close>, which logs and throws the error again.\<close>

definition try_steps ::
  "env \<Rightarrow> api \<Rightarrow> string \<Rightarrow> string option \<Rightarrow> string option
     \<Rightarrow> world \<Rightarrow> (error + result) \<times> world" where
  "try_steps E call apiVersion uname addr w =
     (case step1 E call apiVersion uname addr w of
        (Inl e, w1) \<Rightarrow>
          (Inl e, console_error (''Failed to revoke sessions for user '' @ js_str uname
                                   @ '': '' @ message e) w1)
      | (Inr r, w1) \<Rightarrow> (Inr r, w1))"

subsection \<open>invoke of the bundle\<close>

record dist_params =
  dp_username :: "string option"
  dp_apiVersion :: "string option"

record dist_context =
  SALESFORCE_ACCESS_TOKEN :: "string option"
  SALESFORCE_INSTANCE_URL :: "string option"

text \<open>The destructuring default of \<^verbatim>\<open>apiVersion\<close>.\<close>

definition dist_apiVersion :: "dist_params \<Rightarrow> string" where
  "dist_apiVersion params = (case dp_apiVersion params of None \<Rightarrow> ''v61.0'' | Some v \<Rightarrow> v)"

definition invoke_dist ::
  "env \<Rightarrow> dist_params \<Rightarrow> dist_context \<Rightarrow> world \<Rightarrow> (error + result) \<times> world" where
  "invoke_dist E params ctx w0 =
     (let w1 = console_log ''Starting Salesforce session revocation'' w0
      in if \<not> truthy (dp_username params)
         then (Inl (Error ''username is required''), w1)
         else if \<not> truthy (SALESFORCE_ACCESS_TOKEN ctx)
         then (Inl (Error ''SALESFORCE_ACCESS_TOKEN secret is required''), w1)
         else if \<not> truthy (SALESFORCE_INSTANCE_URL ctx)
         then (Inl (Error ''SALESFORCE_INSTANCE_URL environment variable is required''), w1)
         else
           (let apiVersion = dist_apiVersion params;
                instanceUrl = js_str (SALESFORCE_INSTANCE_URL ctx);
                accessToken = js_str (SALESFORCE_ACCESS_TOKEN ctx);
                w2 = console_log (''Processing username: '' @ js_str (dp_username params)) w1;
                w3 = console_log (''Using API version: '' @ apiVersion) w2
            in try_steps E
                 (\<lambda>endpoint method. callSalesforceAPI_dist E endpoint method instanceUrl accessToken)
                 apiVersion (dp_username params) None w3))"

subsection \<open>invoke of the module source\<close>

text \<open>
  \<^verbatim>\<open>getBaseURL\<close> and \<^verbatim>\<open>getAuthorizationHeader\<close> belong to the package
  \<^verbatim>\<open>@sgnl-actions/utils\<close>; what they return or throw for the given parameters and context
  is an input of the model.  The username is not checked before use.
\<close>

definition invoke_script ::
  "env \<Rightarrow> string option \<Rightarrow> error + string \<Rightarrow> error + string \<Rightarrow> world
     \<Rightarrow> (error + result) \<times> world" where
  "invoke_script E uname getBaseURL getAuthorizationHeader w0 =
     (let w1 = console_log ''Starting Salesforce session revocation'' w0
      in case getBaseURL of
           Inl e \<Rightarrow> (Inl e, w1)
         | Inr baseUrl \<Rightarrow>
             (case getAuthorizationHeader of
                Inl e \<Rightarrow> (Inl e, w1)
              | Inr authHeader \<Rightarrow>
                  try_steps E
                    (\<lambda>endpoint method. callSalesforceAPI E endpoint method baseUrl authHeader)
                    ''v61.0'' uname (Some baseUrl)
                    (console_log (''Processing username: '' @ js_str uname) w1)))"

subsection \<open>The error callback\<close>

record error_params =
  ep_error :: error
  ep_username :: "string option"

record retry = retry_status :: string

definition retryable :: "string \<Rightarrow> bool" where
  "retryable m =
     (js_includes m ''429'' \<or> js_includes m ''502'' \<or> js_includes m ''503'' \<or> js_includes m ''504'')"

definition fatal :: "string \<Rightarrow> bool" where
  "fatal m =
     (js_includes m ''401'' \<or> js_includes m ''403'' \<or> js_includes m ''User not found''
      \<or> js_includes m ''username is required'' \<or> js_includes m ''SALESFORCE_ACCESS_TOKEN''
      \<or> js_includes m ''SALESFORCE_INSTANCE_URL'')"

text \<open>Bundle: classification by the text of the message.\<close>

definition error_dist :: "error_params \<Rightarrow> world \<Rightarrow> (error + retry) \<times> world" where
  "error_dist params w0 =
     (let err = ep_error params;
          w1 = console_error (''Session revocation encountered error for user ''
                 @ js_str (ep_username params) @ '': '' @ message err) w0
      in if retryable (message err)
         then (Inr \<lparr>retry_status = ''retry_requested''\<rparr>,
               (console_log ''Detected retryable error, waiting before retry...'' w1)
                 \<lparr>timers := timers w1 @ [5000]\<rparr>)
         else if fatal (message err) then (Inl err, w1)
         else (Inr \<lparr>retry_status = ''retry_requested''\<rparr>, w1))"

text \<open>Module source: every error is thrown again.\<close>

definition error_script :: "error_params \<Rightarrow> world \<Rightarrow> (error + retry) \<times> world" where
  "error_script params w0 = (Inl (ep_error params), w0)"

subsection \<open>The halt callback (the same text in both files)\<close>

record halt_params =
  hp_reason :: "string option"
  hp_username :: "string option"

record halted =
  halt_status :: string
  halt_username :: string
  halt_reason :: "string option"
  halted_at :: string

definition halt :: "env \<Rightarrow> halt_params \<Rightarrow> world \<Rightarrow> halted \<times> world" where
  "halt E params w0 =
     (let w1 = console_log (''Session revocation is being halted ('' @ js_str (hp_reason params)
                 @ '') for user: '' @ js_str (hp_username params)) w0;
          w2 = console_log ''Halting session revocation process - no cleanup needed'' w1
      in (\<lparr>halt_status = ''halted'',
            halt_username = (if truthy (hp_username params) then js_str (hp_username params)
                             else ''unknown''),
            halt_reason = hp_reason params,
            halted_at = now E\<rparr>, w2))"

section \<open>Auxiliary notions for the statements\<close>

text \<open>
  What the loop does with the answer to one delete call: whether it counts the session,
  and the line it writes to the console.
\<close>

definition counted :: "error + response \<Rightarrow> bool" where
  "counted out =
     (case out of Inl _ \<Rightarrow> False
      | Inr r \<Rightarrow> resp_status r = 204 \<or> resp_status r = 404 \<or> ok r)"

definition console_line :: "sobject \<Rightarrow> error + response \<Rightarrow> level \<times> string" where
  "console_line s out =
     (case out of
        Inl e \<Rightarrow> (WARN, error_warning s e)
      | Inr r \<Rightarrow>
          if resp_status r = 204 \<or> resp_status r = 404 \<or> ok r
          then (LOG, ''Successfully revoked session: '' @ sobject_Id s)
          else (WARN, failed_warning s r))"

text \<open>
  The deletes are issued one after the other, so the delete for the \<open>i\<close>-th session is
  call number \<open>k + i\<close> when \<open>k\<close> calls were made before the loop.  This pairs every
  session with the answer to its delete call.
\<close>

definition delete_outcomes ::
  "env \<Rightarrow> (string \<Rightarrow> string \<Rightarrow> request) \<Rightarrow> string \<Rightarrow> nat \<Rightarrow> sobject list
     \<Rightarrow> (sobject \<times> (error + response)) list" where
  "delete_outcomes E mk v k sessions =
     map (\<lambda>(i, s). (s, fetch E i (mk (deleteEndpoint v s) ''DELETE''))) (enumerate k sessions)"

definition failure_warnings :: "(sobject \<times> (error + response)) list \<Rightarrow> string list" where
  "failure_warnings outs =
     map snd (filter (\<lambda>l. fst l = WARN) (map (\<lambda>(s, out). console_line s out) outs))"

text \<open>
  The outcomes a statement about mixed results distinguishes: a response with status 204
  or 404, and a response that is not a success.  \<open>warning_for\<close> is the text of the
  \<^verbatim>\<open>console.warn\<close> call for a session whose delete was answered by \<open>out\<close>.
\<close>

definition status_204_or_404 :: "error + response \<Rightarrow> bool" where
  "status_204_or_404 out =
     (case out of Inl _ \<Rightarrow> False | Inr r \<Rightarrow> resp_status r = 204 \<or> resp_status r = 404)"

definition non_success :: "error + response \<Rightarrow> bool" where
  "non_success out = (case out of Inl _ \<Rightarrow> False | Inr r \<Rightarrow> \<not> ok r)"

definition warning_for :: "sobject \<Rightarrow> error + response \<Rightarrow> string" where
  "warning_for s out =
     (case out of Inl e \<Rightarrow> error_warning s e | Inr r \<Rightarrow> failed_warning s r)"

subsection \<open>Concrete runs\<close>

text \<open>
  An environment that answers the calls of a run from a list, in order, and with a fault
  once the list is used up; and the parameters of the example of the specification.
\<close>

definition world0 :: world where
  "world0 = \<lparr>calls = [], console = [], timers = []\<rparr>"

definition scripted :: "(error + response) list \<Rightarrow> nat \<Rightarrow> request \<Rightarrow> error + response" where
  "scripted replies i req = (if i < length replies then replies ! i else Inl (Error ''fetch failed''))"

definition reply :: "bool \<Rightarrow> nat \<Rightarrow> string \<Rightarrow> error + response" where
  "reply success code text =
     Inr \<lparr>ok = success, resp_status = code, statusText = text, json_body = JsonThrows (Error ''Unexpected end of JSON input'')\<rparr>"

definition reply_records :: "string list option \<Rightarrow> error + response" where
  "reply_records ids =
     Inr \<lparr>ok = True, resp_status = 200, statusText = ''OK'',
          json_body = JsonObject (map_option (map (\<lambda>i. \<lparr>sobject_Id = i\<rparr>)) ids)\<rparr>"

definition demo_env :: "(error + response) list \<Rightarrow> env" where
  "demo_env replies = \<lparr>fetch = scripted replies, now = ''2024-05-01T12:00:00.000Z''\<rparr>"

definition demo_params :: dist_params where
  "demo_params = \<lparr>dp_username = Some ''john.doe@company.com'', dp_apiVersion = None\<rparr>"

definition demo_context :: dist_context where
  "demo_context = \<lparr>SALESFORCE_ACCESS_TOKEN = Some ''token-123'',
                    SALESFORCE_INSTANCE_URL = Some ''https://mycompany.salesforce.com''\<rparr>"

section \<open>Properties of the steps\<close>

lemmas demo_defs = demo_params_def demo_context_def demo_env_def scripted_def reply_def
  reply_records_def world0_def dist_apiVersion_def

lemma js_includes_sublist: "js_includes s t = sublist t s"
  by (induction s) (simp_all add: sublist_Cons_right)

lemma delete_outcomes_Nil [simp]: "delete_outcomes E mk v k [] = []"
  by (simp add: delete_outcomes_def)

lemma delete_outcomes_Cons [simp]:
  "delete_outcomes E mk v k (s # ss) =
     (s, fetch E k (mk (deleteEndpoint v s) ''DELETE'')) # delete_outcomes E mk v (Suc k) ss"
  by (simp add: delete_outcomes_def)

lemma length_delete_outcomes [simp]: "length (delete_outcomes E mk v k ss) = length ss"
  by (simp add: delete_outcomes_def)

lemma revoke_one_fetch:
  "revoke_one (\<lambda>e m. do_fetch E (mk e m)) v s n w =
     (let out = fetch E (length (calls w)) (mk (deleteEndpoint v s) ''DELETE'')
      in (if counted out then n + 1 else n,
          w\<lparr>calls := calls w @ [mk (deleteEndpoint v s) ''DELETE''],
            console := console w @ [console_line s out]\<rparr>))"
  by (auto simp: revoke_one_def do_fetch_def counted_def console_line_def Let_def
        console_log_def console_warn_def split: sum.splits)

lemma revoke_loop_fetch:
  "revoke_loop (\<lambda>e m. do_fetch E (mk e m)) v ss n w =
     (let outs = delete_outcomes E mk v (length (calls w)) ss
      in (n + int (length (filter (\<lambda>(s, out). counted out) outs)),
          w\<lparr>calls := calls w @ map (\<lambda>s. mk (deleteEndpoint v s) ''DELETE'') ss,
            console := console w @ map (\<lambda>(s, out). console_line s out) outs\<rparr>))"
proof (induction ss arbitrary: n w)
  case Nil
  show ?case by simp
next
  case (Cons s ss)
  show ?case
    by (simp add: revoke_one_fetch Cons.IH Let_def)
qed

lemma calls_console [simp]:
  "calls (console_log m w) = calls w"
  "calls (console_warn m w) = calls w"
  "calls (console_error m w) = calls w"
  by (simp_all add: console_log_def console_warn_def console_error_def)

lemma warnings_console [simp]:
  "warnings (console_log m w) = warnings w"
  "warnings (console_warn m w) = warnings w @ [m]"
  "warnings (console_error m w) = warnings w"
  by (simp_all add: warnings_def console_log_def console_warn_def console_error_def)

lemma do_fetch_simps [simp]:
  "fst (do_fetch E req w) = fetch E (length (calls w)) req"
  "calls (snd (do_fetch E req w)) = calls w @ [req]"
  "warnings (snd (do_fetch E req w)) = warnings w"
  by (simp_all add: do_fetch_def warnings_def)

lemma failure_warnings_Nil [simp]: "failure_warnings [] = []"
  by (simp add: failure_warnings_def)

lemma revoke_loop_count:
  "fst (revoke_loop (\<lambda>e m. do_fetch E (mk e m)) v ss n w) =
     n + int (length (filter (\<lambda>(s, out). counted out)
                        (delete_outcomes E mk v (length (calls w)) ss)))"
  by (simp add: revoke_loop_fetch Let_def)

lemma revoke_loop_calls:
  "calls (snd (revoke_loop (\<lambda>e m. do_fetch E (mk e m)) v ss n w)) =
     calls w @ map (\<lambda>s. mk (deleteEndpoint v s) ''DELETE'') ss"
  by (simp add: revoke_loop_fetch Let_def)

lemma revoke_loop_warnings:
  "warnings (snd (revoke_loop (\<lambda>e m. do_fetch E (mk e m)) v ss n w)) =
     warnings w @ failure_warnings (delete_outcomes E mk v (length (calls w)) ss)"
  by (simp add: revoke_loop_fetch Let_def warnings_def failure_warnings_def)

lemma step3_status:
  "step3 E call v u a uid ss w = (Inr r, w') \<Longrightarrow> status r = ''success''"
  by (auto simp: step3_def split: prod.splits)

lemma step2_status:
  "step2 E call v u a uid w = (Inr r, w') \<Longrightarrow> status r = ''success''"
  by (auto simp: step2_def Let_def split: prod.splits sum.splits if_splits json.splits
      dest: step3_status)

lemma step1_status:
  "step1 E call v u a w = (Inr r, w') \<Longrightarrow> status r = ''success''"
  by (auto simp: step1_def split: prod.splits sum.splits if_splits json.splits option.splits list.splits
      dest: step2_status)

lemma try_steps_status:
  "try_steps E call v u a w = (Inr r, w') \<Longrightarrow> status r = ''success''"
  by (auto simp: try_steps_def split: prod.splits sum.splits dest: step1_status)

lemma step3_fetch:
  "fst (step3 E (\<lambda>e m. do_fetch E (mk e m)) v u a uid ss w) =
     Inr \<lparr>status = ''success'', username = u, userId = uid,
          sessionsRevoked = int (length (filter (\<lambda>(s, out). counted out)
                                    (delete_outcomes E mk v (length (calls w)) ss))),
          processed_at = now E, address = a\<rparr>"
  "calls (snd (step3 E (\<lambda>e m. do_fetch E (mk e m)) v u a uid ss w)) =
     calls w @ map (\<lambda>s. mk (deleteEndpoint v s) ''DELETE'') ss"
  "warnings (snd (step3 E (\<lambda>e m. do_fetch E (mk e m)) v u a uid ss w)) =
     warnings w @ failure_warnings (delete_outcomes E mk v (length (calls w)) ss)"
  using revoke_loop_count [of E mk v ss 0 "console_log ''Step 3: Revoking sessions...'' w"]
        revoke_loop_calls [of E mk v ss 0 "console_log ''Step 3: Revoking sessions...'' w"]
        revoke_loop_warnings [of E mk v ss 0 "console_log ''Step 3: Revoking sessions...'' w"]
  by (simp_all add: step3_def split_beta)

lemma step2_fetch:
  assumes "fetch E (length (calls w)) (mk (sessionQueryEndpoint v uid) ''GET'') = Inr sr"
    and "ok sr" and "json_body sr = JsonObject recs"
  shows "fst (step2 E (\<lambda>e m. do_fetch E (mk e m)) v u a uid w) =
     Inr \<lparr>status = ''success'', username = u, userId = uid,
          sessionsRevoked = int (length (filter (\<lambda>(s, out). counted out)
             (delete_outcomes E mk v (length (calls w) + 1)
                (case recs of None \<Rightarrow> [] | Some rs \<Rightarrow> rs)))),
          processed_at = now E, address = a\<rparr>"
  and "calls (snd (step2 E (\<lambda>e m. do_fetch E (mk e m)) v u a uid w)) =
     calls w @ mk (sessionQueryEndpoint v uid) ''GET''
       # map (\<lambda>s. mk (deleteEndpoint v s) ''DELETE'') (case recs of None \<Rightarrow> [] | Some rs \<Rightarrow> rs)"
  and "warnings (snd (step2 E (\<lambda>e m. do_fetch E (mk e m)) v u a uid w)) =
     warnings w @ failure_warnings (delete_outcomes E mk v (length (calls w) + 1)
                (case recs of None \<Rightarrow> [] | Some rs \<Rightarrow> rs))"
  using assms
  by (simp_all add: step2_def Let_def split_beta step3_fetch)

lemma step1_fetch:
  assumes "fetch E (length (calls w))
             (mk (userQueryEndpoint v (encodeURIComponent (js_str u))) ''GET'') = Inr ur"
    and "ok ur" and "json_body ur = JsonObject (Some (user # others))"
  shows "step1 E (\<lambda>e m. do_fetch E (mk e m)) v u a w =
     step2 E (\<lambda>e m. do_fetch E (mk e m)) v u a (sobject_Id user)
       (console_log (''Found user ID: '' @ sobject_Id user)
          (snd (do_fetch E (mk (userQueryEndpoint v (encodeURIComponent (js_str u))) ''GET'')
                  (console_log ''Step 1: Querying for user ID...'' w))))"
  using assms by (simp add: step1_def split_beta)

lemma try_steps_Inr:
  "fst (step1 E call v u a w) = Inr r \<Longrightarrow>
     try_steps E call v u a w = (Inr r, snd (step1 E call v u a w))"
  by (simp add: try_steps_def split_beta)

lemma try_steps_Inl:
  "fst (step1 E call v u a w) = Inl e \<Longrightarrow>
     try_steps E call v u a w =
       (Inl e, console_error (''Failed to revoke sessions for user '' @ js_str u
                                @ '': '' @ message e) (snd (step1 E call v u a w)))"
  by (simp add: try_steps_def split_beta)

text \<open>
  The run through all three steps, once both queries are answered.
\<close>

lemma try_steps_fetch:
  assumes user: "fetch E (length (calls w))
             (mk (userQueryEndpoint v (encodeURIComponent (js_str u))) ''GET'') = Inr ur"
      "ok ur" "json_body ur = JsonObject (Some (user # others))"
    and sess: "fetch E (length (calls w) + 1)
             (mk (sessionQueryEndpoint v (sobject_Id user)) ''GET'') = Inr sr"
      "ok sr" "json_body sr = JsonObject recs"
  shows "fst (try_steps E (\<lambda>e m. do_fetch E (mk e m)) v u a w) =
     Inr \<lparr>status = ''success'', username = u, userId = sobject_Id user,
          sessionsRevoked = int (length (filter (\<lambda>(s, out). counted out)
             (delete_outcomes E mk v (length (calls w) + 2)
                (case recs of None \<Rightarrow> [] | Some rs \<Rightarrow> rs)))),
          processed_at = now E, address = a\<rparr>"
  and "calls (snd (try_steps E (\<lambda>e m. do_fetch E (mk e m)) v u a w)) =
     calls w @ mk (userQueryEndpoint v (encodeURIComponent (js_str u))) ''GET''
       # mk (sessionQueryEndpoint v (sobject_Id user)) ''GET''
       # map (\<lambda>s. mk (deleteEndpoint v s) ''DELETE'') (case recs of None \<Rightarrow> [] | Some rs \<Rightarrow> rs)"
  and "warnings (snd (try_steps E (\<lambda>e m. do_fetch E (mk e m)) v u a w)) =
     warnings w @ failure_warnings (delete_outcomes E mk v (length (calls w) + 2)
                (case recs of None \<Rightarrow> [] | Some rs \<Rightarrow> rs))"
proof -
  let ?w1 = "console_log (''Found user ID: '' @ sobject_Id user)
          (snd (do_fetch E (mk (userQueryEndpoint v (encodeURIComponent (js_str u))) ''GET'')
                  (console_log ''Step 1: Querying for user ID...'' w)))"
  have len: "length (calls ?w1) = length (calls w) + 1" by simp
  have s1: "step1 E (\<lambda>e m. do_fetch E (mk e m)) v u a w =
              step2 E (\<lambda>e m. do_fetch E (mk e m)) v u a (sobject_Id user) ?w1"
    by (rule step1_fetch [where mk = mk and E = E and w = w and v = v and u = u, OF user])
  have sess': "fetch E (length (calls ?w1))
             (mk (sessionQueryEndpoint v (sobject_Id user)) ''GET'') = Inr sr"
    using sess(1) by (simp only: len)
  note s2 = step2_fetch [where mk = mk and E = E and w = ?w1 and v = v and u = u and a = a,
                OF sess' sess(2,3)]
  have r: "fst (step1 E (\<lambda>e m. do_fetch E (mk e m)) v u a w) =
     Inr \<lparr>status = ''success'', username = u, userId = sobject_Id user,
          sessionsRevoked = int (length (filter (\<lambda>(s, out). counted out)
             (delete_outcomes E mk v (length (calls w) + 2)
                (case recs of None \<Rightarrow> [] | Some rs \<Rightarrow> rs)))),
          processed_at = now E, address = a\<rparr>"
    using s2(1) by (simp add: s1 len)
  show "fst (try_steps E (\<lambda>e m. do_fetch E (mk e m)) v u a w) =
     Inr \<lparr>status = ''success'', username = u, userId = sobject_Id user,
          sessionsRevoked = int (length (filter (\<lambda>(s, out). counted out)
             (delete_outcomes E mk v (length (calls w) + 2)
                (case recs of None \<Rightarrow> [] | Some rs \<Rightarrow> rs)))),
          processed_at = now E, address = a\<rparr>"
    by (simp add: try_steps_Inr [OF r] r)
  show "calls (snd (try_steps E (\<lambda>e m. do_fetch E (mk e m)) v u a w)) =
     calls w @ mk (userQueryEndpoint v (encodeURIComponent (js_str u))) ''GET''
       # mk (sessionQueryEndpoint v (sobject_Id user)) ''GET''
       # map (\<lambda>s. mk (deleteEndpoint v s) ''DELETE'') (case recs of None \<Rightarrow> [] | Some rs \<Rightarrow> rs)"
    using s2(2) by (simp add: try_steps_Inr [OF r] s1)
  show "warnings (snd (try_steps E (\<lambda>e m. do_fetch E (mk e m)) v u a w)) =
     warnings w @ failure_warnings (delete_outcomes E mk v (length (calls w) + 2)
                (case recs of None \<Rightarrow> [] | Some rs \<Rightarrow> rs))"
    using s2(3) by (simp add: try_steps_Inr [OF r] s1 len)
qed

lemma step1_not_found:
  assumes "fetch E (length (calls w))
             (mk (userQueryEndpoint v (encodeURIComponent (js_str u))) ''GET'') = Inr ur"
    and "ok ur"
    and "json_body ur = JsonObject None \<or> json_body ur = JsonObject (Some [])"
  shows "fst (step1 E (\<lambda>e m. do_fetch E (mk e m)) v u a w) =
           Inl (Error (''User not found: '' @ js_str u))"
    and "calls (snd (step1 E (\<lambda>e m. do_fetch E (mk e m)) v u a w)) =
           calls w @ [mk (userQueryEndpoint v (encodeURIComponent (js_str u))) ''GET'']"
  using assms by (auto simp: step1_def split_beta)

lemma try_steps_not_found:
  assumes "fetch E (length (calls w))
             (mk (userQueryEndpoint v (encodeURIComponent (js_str u))) ''GET'') = Inr ur"
    and "ok ur"
    and "json_body ur = JsonObject None \<or> json_body ur = JsonObject (Some [])"
  shows "fst (try_steps E (\<lambda>e m. do_fetch E (mk e m)) v u a w) =
           Inl (Error (''User not found: '' @ js_str u))"
    and "calls (snd (try_steps E (\<lambda>e m. do_fetch E (mk e m)) v u a w)) =
           calls w @ [mk (userQueryEndpoint v (encodeURIComponent (js_str u))) ''GET'']"
  using step1_not_found [where mk = mk and E = E and w = w and v = v and u = u and a = a,
          OF assms]
  by (simp_all add: try_steps_Inl)

lemma failed_warning_names_session: "sublist (sobject_Id s) (failed_warning s r)"
  unfolding failed_warning_def by (rule sublist_appendI)

lemma error_warning_names_session: "sublist (sobject_Id s) (error_warning s e)"
  unfolding error_warning_def by (rule sublist_appendI)

lemma warning_for_names_session: "sublist (sobject_Id s) (warning_for s out)"
  by (cases out)
     (simp_all add: warning_for_def failed_warning_names_session error_warning_names_session)

lemma counted_le: "length (filter (\<lambda>(s, out). counted out) outs) \<le> length outs"
  by (rule length_filter_le)

lemma mixed_counted:
  assumes "\<forall>(s, out) \<in> set outs. status_204_or_404 out \<or> non_success out"
  shows "filter (\<lambda>(s, out). counted out) outs = filter (\<lambda>(s, out). status_204_or_404 out) outs"
  using assms
  by (intro filter_cong refl)
     (auto simp: counted_def status_204_or_404_def non_success_def split: sum.splits)

lemma mixed_warnings:
  assumes "\<forall>(s, out) \<in> set outs. status_204_or_404 out \<or> non_success out"
  shows "failure_warnings outs =
     map (\<lambda>(s, out). warning_for s out) (filter (\<lambda>(s, out). \<not> status_204_or_404 out) outs)"
  using assms
proof (induction outs)
  case Nil
  show ?case by simp
next
  case (Cons x outs)
  obtain s out where x: "x = (s, out)" by (cases x)
  from Cons.prems have IH: "failure_warnings outs =
     map (\<lambda>(s, out). warning_for s out) (filter (\<lambda>(s, out). \<not> status_204_or_404 out) outs)"
    by (intro Cons.IH) simp
  have tl: "failure_warnings (x # outs) =
      (if fst (console_line s out) = WARN then [snd (console_line s out)] else [])
        @ failure_warnings outs"
    by (simp add: failure_warnings_def x)
  from Cons.prems have h: "status_204_or_404 out \<or> non_success out" by (simp add: x)
  have l1: "(fst (console_line s out) = WARN) = (\<not> status_204_or_404 out)"
    using h by (auto simp: console_line_def status_204_or_404_def non_success_def
                split: sum.splits)
  have l2: "\<not> status_204_or_404 out \<Longrightarrow> snd (console_line s out) = warning_for s out"
    using h by (auto simp: console_line_def warning_for_def status_204_or_404_def
                non_success_def split: sum.splits)
  have "failure_warnings ((s, out) # outs) =
      (if \<not> status_204_or_404 out then [warning_for s out] else []) @ failure_warnings outs"
    using tl l1 l2 by (simp add: x)
  then show ?case by (simp add: x IH)
qed

lemma callSalesforceAPI_dist_fetch:
  "callSalesforceAPI_dist E endpoint method url tok = do_fetch E (dist_request url tok endpoint method)"
  by (rule ext) (simp add: callSalesforceAPI_dist_def)

lemma callSalesforceAPI_fetch:
  "callSalesforceAPI E endpoint method base auth = do_fetch E (script_request base auth endpoint method)"
  by (rule ext) (simp add: callSalesforceAPI_def)

lemma invoke_dist_valid:
  assumes "dp_username p = Some u" "u \<noteq> []"
    and "SALESFORCE_ACCESS_TOKEN c = Some tok" "tok \<noteq> []"
    and "SALESFORCE_INSTANCE_URL c = Some url" "url \<noteq> []"
  shows "invoke_dist E p c w =
     try_steps E (\<lambda>e m. do_fetch E (dist_request url tok e m)) (dist_apiVersion p) (Some u) None
       (console_log (''Using API version: '' @ dist_apiVersion p)
          (console_log (''Processing username: '' @ u)
             (console_log ''Starting Salesforce session revocation'' w)))"
  using assms
  by (simp add: invoke_dist_def Let_def truthy_def js_str_def callSalesforceAPI_dist_fetch)

lemma invoke_script_valid:
  "invoke_script E u (Inr base) (Inr auth) w =
     try_steps E (\<lambda>e m. do_fetch E (script_request base auth e m)) ''v61.0'' u (Some base)
       (console_log (''Processing username: '' @ js_str u)
          (console_log ''Starting Salesforce session revocation'' w))"
  by (simp add: invoke_script_def Let_def callSalesforceAPI_fetch)

lemma invoke_dist_run:
  assumes valid: "dp_username p = Some u" "u \<noteq> []"
      "SALESFORCE_ACCESS_TOKEN c = Some tok" "tok \<noteq> []"
      "SALESFORCE_INSTANCE_URL c = Some url" "url \<noteq> []"
    and user: "fetch E (length (calls w))
        (dist_request url tok (userQueryEndpoint (dist_apiVersion p) (encodeURIComponent u)) ''GET'')
        = Inr ur"
      "ok ur" "json_body ur = JsonObject (Some (user # others))"
    and sess: "fetch E (length (calls w) + 1)
        (dist_request url tok (sessionQueryEndpoint (dist_apiVersion p) (sobject_Id user)) ''GET'')
        = Inr sr"
      "ok sr" "json_body sr = JsonObject recs"
    and outs: "outs = delete_outcomes E (dist_request url tok) (dist_apiVersion p)
                 (length (calls w) + 2) (case recs of None \<Rightarrow> [] | Some rs \<Rightarrow> rs)"
  shows "fst (invoke_dist E p c w) =
     Inr \<lparr>status = ''success'', username = Some u, userId = sobject_Id user,
          sessionsRevoked = int (length (filter (\<lambda>(s, out). counted out) outs)),
          processed_at = now E, address = None\<rparr>"
    and "calls (snd (invoke_dist E p c w)) =
     calls w @ dist_request url tok (userQueryEndpoint (dist_apiVersion p) (encodeURIComponent u)) ''GET''
       # dist_request url tok (sessionQueryEndpoint (dist_apiVersion p) (sobject_Id user)) ''GET''
       # map (\<lambda>s. dist_request url tok (deleteEndpoint (dist_apiVersion p) s) ''DELETE'')
           (case recs of None \<Rightarrow> [] | Some rs \<Rightarrow> rs)"
    and "warnings (snd (invoke_dist E p c w)) = warnings w @ failure_warnings outs"
proof -
  let ?w = "console_log (''Using API version: '' @ dist_apiVersion p)
          (console_log (''Processing username: '' @ u)
             (console_log ''Starting Salesforce session revocation'' w))"
  have user': "fetch E (length (calls ?w))
        (dist_request url tok (userQueryEndpoint (dist_apiVersion p)
           (encodeURIComponent (js_str (Some u)))) ''GET'') = Inr ur"
    using user(1) by (simp add: js_str_def)
  have sess': "fetch E (length (calls ?w) + 1)
        (dist_request url tok (sessionQueryEndpoint (dist_apiVersion p) (sobject_Id user)) ''GET'')
        = Inr sr"
    using sess(1) by simp
  note run = try_steps_fetch [where mk = "dist_request url tok" and E = E and w = ?w
      and v = "dist_apiVersion p" and u = "Some u" and a = None,
      OF user' user(2,3) sess' sess(2,3)]
  have eq: "invoke_dist E p c w =
     try_steps E (\<lambda>e m. do_fetch E (dist_request url tok e m)) (dist_apiVersion p) (Some u) None ?w"
    by (rule invoke_dist_valid [OF valid])
  show "fst (invoke_dist E p c w) =
     Inr \<lparr>status = ''success'', username = Some u, userId = sobject_Id user,
          sessionsRevoked = int (length (filter (\<lambda>(s, out). counted out) outs)),
          processed_at = now E, address = None\<rparr>"
    using run(1) by (simp add: eq outs)
  show "calls (snd (invoke_dist E p c w)) =
     calls w @ dist_request url tok (userQueryEndpoint (dist_apiVersion p) (encodeURIComponent u)) ''GET''
       # dist_request url tok (sessionQueryEndpoint (dist_apiVersion p) (sobject_Id user)) ''GET''
       # map (\<lambda>s. dist_request url tok (deleteEndpoint (dist_apiVersion p) s) ''DELETE'')
           (case recs of None \<Rightarrow> [] | Some rs \<Rightarrow> rs)"
    using run(2) by (simp add: eq js_str_def)
  show "warnings (snd (invoke_dist E p c w)) = warnings w @ failure_warnings outs"
    using run(3) by (simp add: eq outs)
qed

lemma invoke_script_run:
  assumes user: "fetch E (length (calls w))
        (script_request base auth (userQueryEndpoint ''v61.0'' (encodeURIComponent (js_str u))) ''GET'')
        = Inr ur"
      "ok ur" "json_body ur = JsonObject (Some (user # others))"
    and sess: "fetch E (length (calls w) + 1)
        (script_request base auth (sessionQueryEndpoint ''v61.0'' (sobject_Id user)) ''GET'')
        = Inr sr"
      "ok sr" "json_body sr = JsonObject recs"
    and outs: "outs = delete_outcomes E (script_request base auth) ''v61.0''
                 (length (calls w) + 2) (case recs of None \<Rightarrow> [] | Some rs \<Rightarrow> rs)"
  shows "fst (invoke_script E u (Inr base) (Inr auth) w) =
     Inr \<lparr>status = ''success'', username = u, userId = sobject_Id user,
          sessionsRevoked = int (length (filter (\<lambda>(s, out). counted out) outs)),
          processed_at = now E, address = Some base\<rparr>"
    and "calls (snd (invoke_script E u (Inr base) (Inr auth) w)) =
     calls w @ script_request base auth (userQueryEndpoint ''v61.0'' (encodeURIComponent (js_str u))) ''GET''
       # script_request base auth (sessionQueryEndpoint ''v61.0'' (sobject_Id user)) ''GET''
       # map (\<lambda>s. script_request base auth (deleteEndpoint ''v61.0'' s) ''DELETE'')
           (case recs of None \<Rightarrow> [] | Some rs \<Rightarrow> rs)"
    and "warnings (snd (invoke_script E u (Inr base) (Inr auth) w)) = warnings w @ failure_warnings outs"
proof -
  let ?w = "console_log (''Processing username: '' @ js_str u)
             (console_log ''Starting Salesforce session revocation'' w)"
  have user': "fetch E (length (calls ?w))
        (script_request base auth (userQueryEndpoint ''v61.0''
           (encodeURIComponent (js_str u))) ''GET'') = Inr ur"
    using user(1) by simp
  have sess': "fetch E (length (calls ?w) + 1)
        (script_request base auth (sessionQueryEndpoint ''v61.0'' (sobject_Id user)) ''GET'')
        = Inr sr"
    using sess(1) by simp
  note run = try_steps_fetch [where mk = "script_request base auth" and E = E and w = ?w
      and v = "''v61.0''" and u = u and a = "Some base",
      OF user' user(2,3) sess' sess(2,3)]
  note eq = invoke_script_valid [of E u base auth w]
  show "fst (invoke_script E u (Inr base) (Inr auth) w) =
     Inr \<lparr>status = ''success'', username = u, userId = sobject_Id user,
          sessionsRevoked = int (length (filter (\<lambda>(s, out). counted out) outs)),
          processed_at = now E, address = Some base\<rparr>"
    using run(1) by (simp only: eq outs) simp
  show "calls (snd (invoke_script E u (Inr base) (Inr auth) w)) =
     calls w @ script_request base auth (userQueryEndpoint ''v61.0'' (encodeURIComponent (js_str u))) ''GET''
       # script_request base auth (sessionQueryEndpoint ''v61.0'' (sobject_Id user)) ''GET''
       # map (\<lambda>s. script_request base auth (deleteEndpoint ''v61.0'' s) ''DELETE'')
           (case recs of None \<Rightarrow> [] | Some rs \<Rightarrow> rs)"
    using run(2) by (simp only: eq) simp
  show "warnings (snd (invoke_script E u (Inr base) (Inr auth) w)) = warnings w @ failure_warnings outs"
    using run(3) by (simp only: eq outs) simp
qed

section \<open>The claims\<close>

subsection \<open>Mixed delete outcomes\<close>

text \<open>
  Claim C1.  When the username, the access token and the instance URL are present, both
  queries succeed, and every delete call is answered by a response whose status is 204 or
  404 or which is not a success, \<open>invoke\<close> returns a record with status \<open>success\<close> whose
  \<open>sessionsRevoked\<close> is the number of 204 and 404 answers; the warnings it writes are
  exactly one for each other answer, in the order of the sessions, and each names the
  identifier of its session.
\<close>

theorem invoke_mixed_delete_outcomes:
  assumes valid: "dp_username p = Some u" "u \<noteq> []"
      "SALESFORCE_ACCESS_TOKEN c = Some tok" "tok \<noteq> []"
      "SALESFORCE_INSTANCE_URL c = Some url" "url \<noteq> []"
    and user: "fetch E (length (calls w))
        (dist_request url tok (userQueryEndpoint (dist_apiVersion p) (encodeURIComponent u)) ''GET'')
        = Inr ur"
      "ok ur" "json_body ur = JsonObject (Some (user # others))"
    and sess: "fetch E (length (calls w) + 1)
        (dist_request url tok (sessionQueryEndpoint (dist_apiVersion p) (sobject_Id user)) ''GET'')
        = Inr sr"
      "ok sr" "json_body sr = JsonObject (Some sessions)"
    and outs: "outs = delete_outcomes E (dist_request url tok) (dist_apiVersion p)
                 (length (calls w) + 2) sessions"
    and mixed: "\<forall>(s, out) \<in> set outs. status_204_or_404 out \<or> non_success out"
  shows "\<exists>r w'. invoke_dist E p c w = (Inr r, w')
     \<and> status r = ''success''
     \<and> sessionsRevoked r = int (length (filter (\<lambda>(s, out). status_204_or_404 out) outs))
     \<and> warnings w' = warnings w
          @ map (\<lambda>(s, out). warning_for s out)
              (filter (\<lambda>(s, out). \<not> status_204_or_404 out) outs)
     \<and> (\<forall>(s, out) \<in> set (filter (\<lambda>(s, out). \<not> status_204_or_404 out) outs).
           sublist (sobject_Id s) (warning_for s out))"
proof -
  have outs': "outs = delete_outcomes E (dist_request url tok) (dist_apiVersion p)
                 (length (calls w) + 2) (case Some sessions of None \<Rightarrow> [] | Some rs \<Rightarrow> rs)"
    by (simp add: outs)
  note run = invoke_dist_run [OF valid user sess outs']
  have 1: "fst (invoke_dist E p c w) =
     Inr \<lparr>status = ''success'', username = Some u, userId = sobject_Id user,
          sessionsRevoked = int (length (filter (\<lambda>(s, out). status_204_or_404 out) outs)),
          processed_at = now E, address = None\<rparr>"
    using run(1) by (simp only: mixed_counted [OF mixed])
  have 2: "warnings (snd (invoke_dist E p c w)) = warnings w
          @ map (\<lambda>(s, out). warning_for s out)
              (filter (\<lambda>(s, out). \<not> status_204_or_404 out) outs)"
    using run(3) by (simp only: mixed_warnings [OF mixed])
  have 3: "\<forall>(s, out) \<in> set (filter (\<lambda>(s, out). \<not> status_204_or_404 out) outs).
           sublist (sobject_Id s) (warning_for s out)"
    by (simp add: warning_for_names_session split_beta)
  show ?thesis
    using 1 2 3 by (cases "invoke_dist E p c w") auto
qed

theorem invoke_mixed_delete_outcomes_witness:
  "\<exists>r w'. invoke_dist
       (demo_env [reply_records (Some [''u1'']), reply_records (Some [''s1'', ''s2'', ''s3'']),
                  reply True 204 ''No Content'', reply False 404 ''Not Found'',
                  reply False 500 ''Internal Server Error''])
       demo_params demo_context world0 = (Inr r, w')
     \<and> status r = ''success'' \<and> sessionsRevoked r = 2
     \<and> warnings w' = [''Failed to revoke session s3: 500 Internal Server Error'']"
  using invoke_mixed_delete_outcomes [where p = demo_params and c = demo_context and w = world0
     and E = "demo_env [reply_records (Some [''u1'']), reply_records (Some [''s1'', ''s2'', ''s3'']),
                  reply True 204 ''No Content'', reply False 404 ''Not Found'',
                  reply False 500 ''Internal Server Error'']"
     and u = "''john.doe@company.com''" and tok = "''token-123''"
     and url = "''https://mycompany.salesforce.com''"
     and ur = "\<lparr>ok = True, resp_status = 200, statusText = ''OK'',
               json_body = JsonObject (Some [\<lparr>sobject_Id = ''u1''\<rparr>])\<rparr>"
     and user = "\<lparr>sobject_Id = ''u1''\<rparr>" and others = "[]"
     and sr = "\<lparr>ok = True, resp_status = 200, statusText = ''OK'',
               json_body = JsonObject (Some [\<lparr>sobject_Id = ''s1''\<rparr>, \<lparr>sobject_Id = ''s2''\<rparr>,
                  \<lparr>sobject_Id = ''s3''\<rparr>])\<rparr>"
     and sessions = "[\<lparr>sobject_Id = ''s1''\<rparr>, \<lparr>sobject_Id = ''s2''\<rparr>, \<lparr>sobject_Id = ''s3''\<rparr>]"
     and outs = "delete_outcomes (demo_env [reply_records (Some [''u1'']), reply_records (Some [''s1'', ''s2'', ''s3'']),
                  reply True 204 ''No Content'', reply False 404 ''Not Found'',
                  reply False 500 ''Internal Server Error'']) (dist_request ''https://mycompany.salesforce.com'' ''token-123'') ''v61.0'' 2
                    [\<lparr>sobject_Id = ''s1''\<rparr>, \<lparr>sobject_Id = ''s2''\<rparr>, \<lparr>sobject_Id = ''s3''\<rparr>]"]
  apply (simp add: demo_defs status_204_or_404_def non_success_def warning_for_def
      failed_warning_def show_nat.simps warnings_def)
  by (elim exE conjE) (intro exI conjI, assumption+)

text \<open>
  The same for the module source.
\<close>

lemma script_mixed_outcomes:
  assumes user: "fetch E (length (calls w))
        (script_request base auth (userQueryEndpoint ''v61.0'' (encodeURIComponent (js_str u))) ''GET'')
        = Inr ur"
      "ok ur" "json_body ur = JsonObject (Some (user # others))"
    and sess: "fetch E (length (calls w) + 1)
        (script_request base auth (sessionQueryEndpoint ''v61.0'' (sobject_Id user)) ''GET'')
        = Inr sr"
      "ok sr" "json_body sr = JsonObject (Some sessions)"
    and outs: "outs = delete_outcomes E (script_request base auth) ''v61.0''
                 (length (calls w) + 2) sessions"
    and mixed: "\<forall>(s, out) \<in> set outs. status_204_or_404 out \<or> non_success out"
  shows "\<exists>r w'. invoke_script E u (Inr base) (Inr auth) w = (Inr r, w')
     \<and> status r = ''success''
     \<and> sessionsRevoked r = int (length (filter (\<lambda>(s, out). status_204_or_404 out) outs))
     \<and> warnings w' = warnings w
          @ map (\<lambda>(s, out). warning_for s out)
              (filter (\<lambda>(s, out). \<not> status_204_or_404 out) outs)
     \<and> (\<forall>(s, out) \<in> set (filter (\<lambda>(s, out). \<not> status_204_or_404 out) outs).
           sublist (sobject_Id s) (warning_for s out))"
proof -
  have outs': "outs = delete_outcomes E (script_request base auth) ''v61.0''
                 (length (calls w) + 2) (case Some sessions of None \<Rightarrow> [] | Some rs \<Rightarrow> rs)"
    by (simp add: outs)
  note run = invoke_script_run [OF user sess outs']
  have 1: "fst (invoke_script E u (Inr base) (Inr auth) w) =
     Inr \<lparr>status = ''success'', username = u, userId = sobject_Id user,
          sessionsRevoked = int (length (filter (\<lambda>(s, out). status_204_or_404 out) outs)),
          processed_at = now E, address = Some base\<rparr>"
    using run(1) by (simp only: mixed_counted [OF mixed])
  have 2: "warnings (snd (invoke_script E u (Inr base) (Inr auth) w)) = warnings w
          @ map (\<lambda>(s, out). warning_for s out)
              (filter (\<lambda>(s, out). \<not> status_204_or_404 out) outs)"
    using run(3) by (simp only: mixed_warnings [OF mixed])
  have 3: "\<forall>(s, out) \<in> set (filter (\<lambda>(s, out). \<not> status_204_or_404 out) outs).
           sublist (sobject_Id s) (warning_for s out)"
    by (simp add: warning_for_names_session split_beta)
  show ?thesis
    using 1 2 3 by (cases "invoke_script E u (Inr base) (Inr auth) w") auto
qed

subsection \<open>The error callback\<close>

text \<open>
  Claim C2, for the error callback of the bundle.  A message that contains 429, 502, 503
  or 504 and none of the fatal markers gives \<open>retry_requested\<close>.  A message that contains
  one of the fatal markers 401, 403, \<^verbatim>\<open>User not found\<close>, \<^verbatim>\<open>username is required\<close>,
  \<^verbatim>\<open>SALESFORCE_ACCESS_TOKEN\<close> or \<^verbatim>\<open>SALESFORCE_INSTANCE_URL\<close>, and none of those four codes,
  makes the callback throw the error it was given, unchanged.  A message with neither a
  code nor a marker gives \<open>retry_requested\<close>.  Nothing is stated here about a message
  that contains both a code and a marker.
\<close>

theorem error_classification:
  "((\<exists>code \<in> {''429'', ''502'', ''503'', ''504''}. sublist code (message (ep_error p)))
      \<and> \<not> (\<exists>marker \<in> {''401'', ''403'', ''User not found'', ''username is required'',
                       ''SALESFORCE_ACCESS_TOKEN'', ''SALESFORCE_INSTANCE_URL''}.
            sublist marker (message (ep_error p)))
      \<longrightarrow> fst (error_dist p w) = Inr \<lparr>retry_status = ''retry_requested''\<rparr>)
   \<and> (\<not> (\<exists>code \<in> {''429'', ''502'', ''503'', ''504''}. sublist code (message (ep_error p)))
      \<and> (\<exists>marker \<in> {''401'', ''403'', ''User not found'', ''username is required'',
                       ''SALESFORCE_ACCESS_TOKEN'', ''SALESFORCE_INSTANCE_URL''}.
            sublist marker (message (ep_error p)))
      \<longrightarrow> fst (error_dist p w) = Inl (ep_error p))
   \<and> (\<not> (\<exists>code \<in> {''429'', ''502'', ''503'', ''504''}. sublist code (message (ep_error p)))
      \<and> \<not> (\<exists>marker \<in> {''401'', ''403'', ''User not found'', ''username is required'',
                       ''SALESFORCE_ACCESS_TOKEN'', ''SALESFORCE_INSTANCE_URL''}.
            sublist marker (message (ep_error p)))
      \<longrightarrow> fst (error_dist p w) = Inr \<lparr>retry_status = ''retry_requested''\<rparr>)"
  by (simp add: error_dist_def Let_def retryable_def fatal_def js_includes_sublist)

theorem error_classification_witness:
  "fst (error_dist \<lparr>ep_error = Error ''Rate limited: 429'', ep_username = Some ''test@example.com''\<rparr> world0)
     = Inr \<lparr>retry_status = ''retry_requested''\<rparr>
   \<and> fst (error_dist \<lparr>ep_error = Error ''Authentication failed: 401'', ep_username = Some ''test@example.com''\<rparr> world0)
     = Inl (Error ''Authentication failed: 401'')
   \<and> fst (error_dist \<lparr>ep_error = Error ''Unknown network error'', ep_username = Some ''test@example.com''\<rparr> world0)
     = Inr \<lparr>retry_status = ''retry_requested''\<rparr>"
  using error_classification [of "\<lparr>ep_error = Error ''Rate limited: 429'', ep_username = Some ''test@example.com''\<rparr>" world0]
    error_classification [of "\<lparr>ep_error = Error ''Authentication failed: 401'', ep_username = Some ''test@example.com''\<rparr>" world0]
    error_classification [of "\<lparr>ep_error = Error ''Unknown network error'', ep_username = Some ''test@example.com''\<rparr>" world0]
  by (simp add: sublist_code)

text \<open>
  The fatal markers include the text of the user-not-found error: such a message, which
  contains none of the four codes and none of the markers 401, 403, of a missing username
  or of missing configuration, is thrown again and not answered by \<open>retry_requested\<close>.
\<close>

theorem error_classification_counterexample:
  "\<not> sublist ''429'' ''User not found: test@example.com''
   \<and> \<not> sublist ''502'' ''User not found: test@example.com''
   \<and> \<not> sublist ''503'' ''User not found: test@example.com''
   \<and> \<not> sublist ''504'' ''User not found: test@example.com''
   \<and> \<not> sublist ''401'' ''User not found: test@example.com''
   \<and> \<not> sublist ''403'' ''User not found: test@example.com''
   \<and> \<not> sublist ''username is required'' ''User not found: test@example.com''
   \<and> \<not> sublist ''SALESFORCE_ACCESS_TOKEN'' ''User not found: test@example.com''
   \<and> \<not> sublist ''SALESFORCE_INSTANCE_URL'' ''User not found: test@example.com''
   \<and> fst (error_dist \<lparr>ep_error = Error ''User not found: test@example.com'',
                       ep_username = Some ''test@example.com''\<rparr> world0)
       = Inl (Error ''User not found: test@example.com'')"
  by (simp add: error_dist_def Let_def retryable_def fatal_def sublist_code)

text \<open>
  A defect of the matching by substring.  The codes are looked for anywhere in the
  message, also in the username that \<open>invoke\<close> puts into its user-not-found error, and
  they are looked for before the fatal markers.  For a user \<^verbatim>\<open>john503@company.com\<close> that
  does not exist, \<open>invoke\<close> throws \<^verbatim>\<open>User not found: john503@company.com\<close> and the callback
  answers that error by \<open>retry_requested\<close>, although the bundle lists it under
  \<^verbatim>\<open>Fatal errors - don't retry\<close>.
\<close>

lemma user_not_found_retried_when_username_has_code:
  "fst (invoke_dist (demo_env [reply_records (Some [])])
          \<lparr>dp_username = Some ''john503@company.com'', dp_apiVersion = None\<rparr>
          demo_context world0)
     = Inl (Error ''User not found: john503@company.com'')
   \<and> fst (error_dist \<lparr>ep_error = Error ''User not found: john503@company.com'',
                       ep_username = Some ''john503@company.com''\<rparr> world0)
       = Inr \<lparr>retry_status = ''retry_requested''\<rparr>"
proof -
  have "fst (invoke_dist (demo_env [reply_records (Some [])])
          \<lparr>dp_username = Some ''john503@company.com'', dp_apiVersion = None\<rparr>
          demo_context world0)
     = Inl (Error ''User not found: john503@company.com'')"
    by (simp add: invoke_dist_def Let_def callSalesforceAPI_dist_fetch try_steps_def step1_def
        truthy_def js_str_def do_fetch_def console_log_def dist_request_def demo_defs)
  moreover have "fst (error_dist \<lparr>ep_error = Error ''User not found: john503@company.com'',
                       ep_username = Some ''john503@company.com''\<rparr> world0)
       = Inr \<lparr>retry_status = ''retry_requested''\<rparr>"
    by (simp add: error_dist_def Let_def retryable_def)
  ultimately show ?thesis by simp
qed

subsection \<open>Unknown user\<close>

text \<open>
  Claim C3.  When the user query succeeds and its body has no records (an empty array or
  no \<^verbatim>\<open>records\<close> field), \<open>invoke\<close> throws the error \<^verbatim>\<open>User not found: <username>\<close>, and the
  user query is the only call it has made: no session query, no delete.
\<close>

theorem invoke_user_not_found:
  assumes valid: "dp_username p = Some u" "u \<noteq> []"
      "SALESFORCE_ACCESS_TOKEN c = Some tok" "tok \<noteq> []"
      "SALESFORCE_INSTANCE_URL c = Some url" "url \<noteq> []"
    and user: "fetch E (length (calls w))
        (dist_request url tok (userQueryEndpoint (dist_apiVersion p) (encodeURIComponent u)) ''GET'')
        = Inr ur"
      "ok ur"
      "json_body ur = JsonObject None \<or> json_body ur = JsonObject (Some [])"
  shows "fst (invoke_dist E p c w) = Inl (Error (''User not found: '' @ u))
     \<and> calls (snd (invoke_dist E p c w)) =
         calls w @ [dist_request url tok
            (userQueryEndpoint (dist_apiVersion p) (encodeURIComponent u)) ''GET'']"
proof -
  let ?w = "console_log (''Using API version: '' @ dist_apiVersion p)
          (console_log (''Processing username: '' @ u)
             (console_log ''Starting Salesforce session revocation'' w))"
  have user': "fetch E (length (calls ?w))
        (dist_request url tok (userQueryEndpoint (dist_apiVersion p)
           (encodeURIComponent (js_str (Some u)))) ''GET'') = Inr ur"
    using user(1) by (simp add: js_str_def)
  note nf = try_steps_not_found [where mk = "dist_request url tok" and E = E and w = ?w
      and v = "dist_apiVersion p" and u = "Some u" and a = None, OF user' user(2,3)]
  show ?thesis
    using nf by (simp add: invoke_dist_valid [OF valid] js_str_def)
qed

theorem invoke_user_not_found_witness:
  "fst (invoke_dist (demo_env [reply_records (Some [])]) demo_params demo_context world0)
     = Inl (Error ''User not found: john.doe@company.com'')
   \<and> calls (snd (invoke_dist (demo_env [reply_records (Some [])]) demo_params demo_context world0))
     = [dist_request ''https://mycompany.salesforce.com'' ''token-123''
          (userQueryEndpoint ''v61.0'' (encodeURIComponent ''john.doe@company.com'')) ''GET'']"
  using invoke_user_not_found [where p = demo_params and c = demo_context and w = world0
     and E = "demo_env [reply_records (Some [])]"
     and u = "''john.doe@company.com''" and tok = "''token-123''"
     and url = "''https://mycompany.salesforce.com''"
     and ur = "\<lparr>ok = True, resp_status = 200, statusText = ''OK'',
               json_body = JsonObject (Some [])\<rparr>"]
  by (simp add: demo_defs)

text \<open>
  The same for the module source.
\<close>

lemma script_user_not_found:
  assumes user: "fetch E (length (calls w))
        (script_request base auth (userQueryEndpoint ''v61.0'' (encodeURIComponent (js_str u))) ''GET'')
        = Inr ur"
      "ok ur"
      "json_body ur = JsonObject None \<or> json_body ur = JsonObject (Some [])"
  shows "fst (invoke_script E u (Inr base) (Inr auth) w) =
           Inl (Error (''User not found: '' @ js_str u))
     \<and> calls (snd (invoke_script E u (Inr base) (Inr auth) w)) =
         calls w @ [script_request base auth
            (userQueryEndpoint ''v61.0'' (encodeURIComponent (js_str u))) ''GET'']"
proof -
  let ?w = "console_log (''Processing username: '' @ js_str u)
             (console_log ''Starting Salesforce session revocation'' w)"
  have user': "fetch E (length (calls ?w))
        (script_request base auth (userQueryEndpoint ''v61.0''
           (encodeURIComponent (js_str u))) ''GET'') = Inr ur"
    using user(1) by simp
  note nf = try_steps_not_found [where mk = "script_request base auth" and E = E and w = ?w
      and v = "''v61.0''" and u = u and a = "Some base", OF user' user(2,3)]
  show ?thesis
    using nf by (simp only: invoke_script_valid) simp
qed

subsection \<open>The revoked count\<close>

text \<open>
  Claim C4.  Once both queries have succeeded, whatever the delete calls are answered
  with (a fault, any status), \<open>invoke\<close> returns a record and does not throw, and the
  count in it lies between 0 and the number of sessions.
\<close>

theorem revocation_count_bounded:
  assumes valid: "dp_username p = Some u" "u \<noteq> []"
      "SALESFORCE_ACCESS_TOKEN c = Some tok" "tok \<noteq> []"
      "SALESFORCE_INSTANCE_URL c = Some url" "url \<noteq> []"
    and user: "fetch E (length (calls w))
        (dist_request url tok (userQueryEndpoint (dist_apiVersion p) (encodeURIComponent u)) ''GET'')
        = Inr ur"
      "ok ur" "json_body ur = JsonObject (Some (user # others))"
    and sess: "fetch E (length (calls w) + 1)
        (dist_request url tok (sessionQueryEndpoint (dist_apiVersion p) (sobject_Id user)) ''GET'')
        = Inr sr"
      "ok sr" "json_body sr = JsonObject (Some sessions)"
  shows "\<exists>r w'. invoke_dist E p c w = (Inr r, w')
     \<and> 0 \<le> sessionsRevoked r \<and> sessionsRevoked r \<le> int (length sessions)"
proof -
  define outs where "outs = delete_outcomes E (dist_request url tok) (dist_apiVersion p)
                 (length (calls w) + 2) (case Some sessions of None \<Rightarrow> [] | Some rs \<Rightarrow> rs)"
  note run = invoke_dist_run [OF valid user sess outs_def]
  have "length (filter (\<lambda>(s, out). counted out) outs) \<le> length sessions"
    using counted_le [of outs] by (simp add: outs_def)
  then show ?thesis
    using run(1) by (cases "invoke_dist E p c w") auto
qed

theorem revocation_count_bounded_witness:
  "\<exists>r w'. invoke_dist
       (demo_env [reply_records (Some [''u1'']), reply_records (Some [''s1'', ''s2'', ''s3'']),
                  Inl (Error ''socket hang up''), reply False 500 ''Internal Server Error'',
                  reply True 200 ''OK''])
       demo_params demo_context world0 = (Inr r, w')
     \<and> 0 \<le> sessionsRevoked r \<and> sessionsRevoked r \<le> 3"
  using revocation_count_bounded [where p = demo_params and c = demo_context and w = world0
     and E = "demo_env [reply_records (Some [''u1'']), reply_records (Some [''s1'', ''s2'', ''s3'']),
                  Inl (Error ''socket hang up''), reply False 500 ''Internal Server Error'',
                  reply True 200 ''OK'']"
     and u = "''john.doe@company.com''" and tok = "''token-123''"
     and url = "''https://mycompany.salesforce.com''"
     and ur = "\<lparr>ok = True, resp_status = 200, statusText = ''OK'',
               json_body = JsonObject (Some [\<lparr>sobject_Id = ''u1''\<rparr>])\<rparr>"
     and user = "\<lparr>sobject_Id = ''u1''\<rparr>" and others = "[]"
     and sr = "\<lparr>ok = True, resp_status = 200, statusText = ''OK'',
               json_body = JsonObject (Some [\<lparr>sobject_Id = ''s1''\<rparr>, \<lparr>sobject_Id = ''s2''\<rparr>,
                  \<lparr>sobject_Id = ''s3''\<rparr>])\<rparr>"
     and sessions = "[\<lparr>sobject_Id = ''s1''\<rparr>, \<lparr>sobject_Id = ''s2''\<rparr>, \<lparr>sobject_Id = ''s3''\<rparr>]"]
  by (simp add: demo_defs)

text \<open>
  The same for the module source.
\<close>

lemma script_count_bounded:
  assumes user: "fetch E (length (calls w))
        (script_request base auth (userQueryEndpoint ''v61.0'' (encodeURIComponent (js_str u))) ''GET'')
        = Inr ur"
      "ok ur" "json_body ur = JsonObject (Some (user # others))"
    and sess: "fetch E (length (calls w) + 1)
        (script_request base auth (sessionQueryEndpoint ''v61.0'' (sobject_Id user)) ''GET'')
        = Inr sr"
      "ok sr" "json_body sr = JsonObject (Some sessions)"
  shows "\<exists>r w'. invoke_script E u (Inr base) (Inr auth) w = (Inr r, w')
     \<and> 0 \<le> sessionsRevoked r \<and> sessionsRevoked r \<le> int (length sessions)"
proof -
  define outs where "outs = delete_outcomes E (script_request base auth) ''v61.0''
                 (length (calls w) + 2) (case Some sessions of None \<Rightarrow> [] | Some rs \<Rightarrow> rs)"
  note run = invoke_script_run [OF user sess outs_def]
  have "length (filter (\<lambda>(s, out). counted out) outs) \<le> length sessions"
    using counted_le [of outs] by (simp add: outs_def)
  then show ?thesis
    using run(1) by (cases "invoke_script E u (Inr base) (Inr auth) w") auto
qed

subsection \<open>No sessions\<close>

text \<open>
  Claim C5.  When the session query succeeds with an empty array of records, \<open>invoke\<close>
  returns status \<open>success\<close> with \<open>sessionsRevoked = 0\<close>, and the two queries are the only
  calls it has made.
\<close>

theorem invoke_no_sessions:
  assumes valid: "dp_username p = Some u" "u \<noteq> []"
      "SALESFORCE_ACCESS_TOKEN c = Some tok" "tok \<noteq> []"
      "SALESFORCE_INSTANCE_URL c = Some url" "url \<noteq> []"
    and user: "fetch E (length (calls w))
        (dist_request url tok (userQueryEndpoint (dist_apiVersion p) (encodeURIComponent u)) ''GET'')
        = Inr ur"
      "ok ur" "json_body ur = JsonObject (Some (user # others))"
    and sess: "fetch E (length (calls w) + 1)
        (dist_request url tok (sessionQueryEndpoint (dist_apiVersion p) (sobject_Id user)) ''GET'')
        = Inr sr"
      "ok sr" "json_body sr = JsonObject (Some [])"
  shows "\<exists>r w'. invoke_dist E p c w = (Inr r, w')
     \<and> status r = ''success'' \<and> sessionsRevoked r = 0
     \<and> calls w' = calls w @
          [dist_request url tok (userQueryEndpoint (dist_apiVersion p) (encodeURIComponent u)) ''GET'',
           dist_request url tok (sessionQueryEndpoint (dist_apiVersion p) (sobject_Id user)) ''GET'']"
proof -
  note run = invoke_dist_run [OF valid user sess refl]
  show ?thesis
    using run(1,2) by (cases "invoke_dist E p c w") auto
qed

theorem invoke_no_sessions_witness:
  "\<exists>r w'. invoke_dist (demo_env [reply_records (Some [''u1'']), reply_records (Some [])])
       demo_params demo_context world0 = (Inr r, w')
     \<and> status r = ''success'' \<and> sessionsRevoked r = 0 \<and> length (calls w') = 2"
  using invoke_no_sessions [where p = demo_params and c = demo_context and w = world0
     and E = "demo_env [reply_records (Some [''u1'']), reply_records (Some [])]"
     and u = "''john.doe@company.com''" and tok = "''token-123''"
     and url = "''https://mycompany.salesforce.com''"
     and ur = "\<lparr>ok = True, resp_status = 200, statusText = ''OK'',
               json_body = JsonObject (Some [\<lparr>sobject_Id = ''u1''\<rparr>])\<rparr>"
     and user = "\<lparr>sobject_Id = ''u1''\<rparr>" and others = "[]"
     and sr = "\<lparr>ok = True, resp_status = 200, statusText = ''OK'',
               json_body = JsonObject (Some [])\<rparr>"]
  apply (simp add: demo_defs)
  by (elim exE conjE) (intro exI conjI, assumption+, simp)

text \<open>
  The module source, for an empty array and for a body without \<^verbatim>\<open>records\<close>.
\<close>

lemma script_no_sessions:
  assumes user: "fetch E (length (calls w))
        (script_request base auth (userQueryEndpoint ''v61.0'' (encodeURIComponent (js_str u))) ''GET'')
        = Inr ur"
      "ok ur" "json_body ur = JsonObject (Some (user # others))"
    and sess: "fetch E (length (calls w) + 1)
        (script_request base auth (sessionQueryEndpoint ''v61.0'' (sobject_Id user)) ''GET'')
        = Inr sr"
      "ok sr" "json_body sr = JsonObject recs" "recs = None \<or> recs = Some []"
  shows "\<exists>r w'. invoke_script E u (Inr base) (Inr auth) w = (Inr r, w')
     \<and> status r = ''success'' \<and> sessionsRevoked r = 0
     \<and> calls w' = calls w @
          [script_request base auth (userQueryEndpoint ''v61.0'' (encodeURIComponent (js_str u))) ''GET'',
           script_request base auth (sessionQueryEndpoint ''v61.0'' (sobject_Id user)) ''GET'']"
proof -
  note run = invoke_script_run [OF user sess(1,2,3) refl]
  show ?thesis
    using run(1,2) sess(4) by (cases "invoke_script E u (Inr base) (Inr auth) w") auto
qed

subsection \<open>Validation\<close>

text \<open>
  Claim C6, as the code has it.  In the bundle a missing or empty username, access token
  or instance URL makes \<open>invoke\<close> throw the error that names it, with no call made.  In
  the module source an error thrown by \<^verbatim>\<open>getBaseURL\<close> or by \<^verbatim>\<open>getAuthorizationHeader\<close> leaves
  \<open>invoke\<close> as it is, with no call made; the username is not examined.
\<close>

theorem invoke_rejects_missing_configuration:
  "(\<not> truthy (dp_username p) \<or> \<not> truthy (SALESFORCE_ACCESS_TOKEN c)
      \<or> \<not> truthy (SALESFORCE_INSTANCE_URL c) \<longrightarrow>
      fst (invoke_dist E p c w) =
        Inl (Error (if \<not> truthy (dp_username p) then ''username is required''
                    else if \<not> truthy (SALESFORCE_ACCESS_TOKEN c)
                    then ''SALESFORCE_ACCESS_TOKEN secret is required''
                    else ''SALESFORCE_INSTANCE_URL environment variable is required''))
      \<and> calls (snd (invoke_dist E p c w)) = calls w)
   \<and> fst (invoke_script E u (Inl e) getAuthorizationHeader w) = Inl e
   \<and> calls (snd (invoke_script E u (Inl e) getAuthorizationHeader w)) = calls w
   \<and> fst (invoke_script E u (Inr baseUrl) (Inl e) w) = Inl e
   \<and> calls (snd (invoke_script E u (Inr baseUrl) (Inl e) w)) = calls w"
  by (simp add: invoke_dist_def invoke_script_def Let_def)

theorem invoke_rejects_missing_configuration_witness:
  "fst (invoke_dist (demo_env []) \<lparr>dp_username = Some [], dp_apiVersion = None\<rparr> demo_context world0)
     = Inl (Error ''username is required'')
   \<and> calls (snd (invoke_dist (demo_env []) \<lparr>dp_username = Some [], dp_apiVersion = None\<rparr>
                demo_context world0)) = []
   \<and> fst (invoke_dist (demo_env []) demo_params
        \<lparr>SALESFORCE_ACCESS_TOKEN = None,
          SALESFORCE_INSTANCE_URL = Some ''https://mycompany.salesforce.com''\<rparr> world0)
     = Inl (Error ''SALESFORCE_ACCESS_TOKEN secret is required'')
   \<and> fst (invoke_dist (demo_env []) demo_params
        \<lparr>SALESFORCE_ACCESS_TOKEN = Some ''token-123'', SALESFORCE_INSTANCE_URL = None\<rparr> world0)
     = Inl (Error ''SALESFORCE_INSTANCE_URL environment variable is required'')"
  using invoke_rejects_missing_configuration
      [of "\<lparr>dp_username = Some [], dp_apiVersion = None\<rparr>" demo_context "demo_env []" world0]
    invoke_rejects_missing_configuration
      [of demo_params "\<lparr>SALESFORCE_ACCESS_TOKEN = None,
          SALESFORCE_INSTANCE_URL = Some ''https://mycompany.salesforce.com''\<rparr>" "demo_env []" world0]
    invoke_rejects_missing_configuration
      [of demo_params "\<lparr>SALESFORCE_ACCESS_TOKEN = Some ''token-123'',
          SALESFORCE_INSTANCE_URL = None\<rparr>" "demo_env []" world0]
  by (simp add: truthy_def demo_params_def demo_context_def world0_def)

text \<open>
  The module source with no username at all: the user query is sent, for the username
  \<^verbatim>\<open>undefined\<close>.
\<close>

theorem invoke_script_unchecked_username_counterexample:
  "calls (snd (invoke_script (demo_env []) None (Inr ''https://mycompany.salesforce.com'')
                 (Inr ''Bearer token-123'') world0)) =
     [\<lparr>req_url = Href ''https://mycompany.salesforce.com/services/data/v61.0/query?q=SELECT+Id+FROM+User+WHERE+username+LIKE+'undefined'+ORDER+BY+Id+ASC'',
       req_method = ''GET'', req_headers = api_headers ''Bearer token-123''\<rparr>]"
  by (simp add: invoke_script_def Let_def callSalesforceAPI_fetch try_steps_def step1_def
      do_fetch_def console_log_def console_error_def world0_def demo_env_def scripted_def
      script_request_def userQueryEndpoint_def apostrophe_def js_str_def
      encodeURIComponent_def encode_char_def uri_unreserved_def)

subsection \<open>Encoding of the username\<close>

text \<open>
  The encoded username is part of the endpoint of the user query, and the example of the
  specification is encoded as it says.
\<close>

lemma encodeURIComponent_example:
  "encodeURIComponent ''test+user@example.com'' = ''test%2Buser%40example.com''"
  by (simp add: encodeURIComponent_def encode_char_def uri_unreserved_def hex_digit_def)

lemma endpoint_contains_encoded_username:
  "sublist (encodeURIComponent u) (userQueryEndpoint v (encodeURIComponent u))"
proof -
  have "userQueryEndpoint v (encodeURIComponent u) =
      (''/services/data/'' @ v @ ''/query?q=SELECT+Id+FROM+User+WHERE+username+LIKE+'' @ apostrophe)
       @ encodeURIComponent u @ (apostrophe @ ''+ORDER+BY+Id+ASC'')"
    by (simp add: userQueryEndpoint_def)
  then show ?thesis by (simp only: sublist_appendI)
qed

text \<open>
  What the encoding guarantees and what it does not: its output consists of unreserved
  characters and percent signs, and an apostrophe of the input is still there.
\<close>

lemma hex_digit_unreserved: "n < 16 \<Longrightarrow> uri_unreserved (hex_digit n)"
proof -
  assume "n < 16"
  then have "n \<in> {0,1,2,3,4,5,6,7,8,9,10,11,12,13,14,15}"
    unfolding insert_iff empty_iff by arith
  then show ?thesis
    by (auto simp: hex_digit_def uri_unreserved_def)
qed

lemma encode_char_alphabet:
  "c' \<in> set (encode_char c) \<Longrightarrow> uri_unreserved c' \<or> c' = CHR ''%''"
proof -
  have "(of_char c :: nat) < 256" by (simp add: of_char_def)
  then have "(of_char c :: nat) div 16 < 16" "(of_char c :: nat) mod 16 < 16" by arith+
  then show "c' \<in> set (encode_char c) \<Longrightarrow> uri_unreserved c' \<or> c' = CHR ''%''"
    by (auto simp: encode_char_def hex_digit_unreserved split: if_splits)
qed

lemma encodeURIComponent_alphabet:
  "c \<in> set (encodeURIComponent s) \<Longrightarrow> uri_unreserved c \<or> c = CHR ''%''"
  by (auto simp: encodeURIComponent_def dest: encode_char_alphabet)

lemma apostrophe_survives_encoding:
  "CHR 0x27 \<in> set s \<Longrightarrow> CHR 0x27 \<in> set (encodeURIComponent s)"
  by (induction s) (auto simp: encodeURIComponent_def encode_char_def uri_unreserved_def)

text \<open>
  Claim C7.  \<^verbatim>\<open>encodeURIComponent\<close> leaves the apostrophe as it is, and the apostrophe is
  what delimits the username in the query.  For the username \<^verbatim>\<open>x' OR username LIKE '%\<close> the
  user query of both files carries \<^verbatim>\<open>LIKE+'x'%20OR%20username%20LIKE%20'%25'\<close>: the literal
  ends after \<^verbatim>\<open>x\<close> and the rest of the username is part of the condition.
\<close>

theorem username_apostrophe_passes_unencoded:
  "encodeURIComponent ''x' OR username LIKE '%'' = ''x'%20OR%20username%20LIKE%20'%25''
   \<and> calls (snd (invoke_script (demo_env []) (Some ''x' OR username LIKE '%'')
                 (Inr ''https://mycompany.salesforce.com'') (Inr ''Bearer token-123'') world0)) =
     [\<lparr>req_url = Href ''https://mycompany.salesforce.com/services/data/v61.0/query?q=SELECT+Id+FROM+User+WHERE+username+LIKE+'x'%20OR%20username%20LIKE%20'%25'+ORDER+BY+Id+ASC'',
       req_method = ''GET'', req_headers = api_headers ''Bearer token-123''\<rparr>]
   \<and> calls (snd (invoke_dist (demo_env [])
                 \<lparr>dp_username = Some ''x' OR username LIKE '%'', dp_apiVersion = None\<rparr>
                 demo_context world0)) =
     [\<lparr>req_url = URL ''/services/data/v61.0/query?q=SELECT+Id+FROM+User+WHERE+username+LIKE+'x'%20OR%20username%20LIKE%20'%25'+ORDER+BY+Id+ASC''
                    ''https://mycompany.salesforce.com'',
       req_method = ''GET'', req_headers = api_headers ''Bearer token-123''\<rparr>]"
  by (simp add: invoke_script_def invoke_dist_def Let_def callSalesforceAPI_fetch
      callSalesforceAPI_dist_fetch try_steps_def step1_def truthy_def demo_context_def
      dist_apiVersion_def dist_request_def
      do_fetch_def console_log_def console_error_def world0_def demo_env_def scripted_def
      script_request_def userQueryEndpoint_def apostrophe_def js_str_def
      encodeURIComponent_def encode_char_def uri_unreserved_def hex_digit_def)

subsection \<open>The halt callback\<close>

text \<open>
  Claim C8.  \<open>halt\<close> returns status \<open>halted\<close>, the reason it was given, the username it
  was given or \<open>unknown\<close> when there is none (or an empty one), and the time of the
  clock; it makes no call.
\<close>

theorem halt_acknowledges:
  "halt_status (fst (halt E p w)) = ''halted''
   \<and> halt_reason (fst (halt E p w)) = hp_reason p
   \<and> (\<forall>u. hp_username p = Some u \<and> u \<noteq> [] \<longrightarrow> halt_username (fst (halt E p w)) = u)
   \<and> (hp_username p = None \<or> hp_username p = Some [] \<longrightarrow>
        halt_username (fst (halt E p w)) = ''unknown'')
   \<and> halted_at (fst (halt E p w)) = now E
   \<and> calls (snd (halt E p w)) = calls w"
  by (auto simp: halt_def Let_def truthy_def js_str_def console_log_def)

theorem halt_acknowledges_witness:
  "fst (halt (demo_env []) \<lparr>hp_reason = Some ''timeout'', hp_username = Some ''test@example.com''\<rparr> world0)
     = \<lparr>halt_status = ''halted'', halt_username = ''test@example.com'',
        halt_reason = Some ''timeout'', halted_at = ''2024-05-01T12:00:00.000Z''\<rparr>
   \<and> fst (halt (demo_env []) \<lparr>hp_reason = Some ''system_shutdown'', hp_username = None\<rparr> world0)
     = \<lparr>halt_status = ''halted'', halt_username = ''unknown'',
        halt_reason = Some ''system_shutdown'', halted_at = ''2024-05-01T12:00:00.000Z''\<rparr>
   \<and> calls (snd (halt (demo_env []) \<lparr>hp_reason = Some ''system_shutdown'', hp_username = None\<rparr>
                 world0)) = []"
  using halt_acknowledges [of "demo_env []"
      "\<lparr>hp_reason = Some ''timeout'', hp_username = Some ''test@example.com''\<rparr>" world0]
    halt_acknowledges [of "demo_env []"
      "\<lparr>hp_reason = Some ''system_shutdown'', hp_username = None\<rparr>" world0]
  by (simp add: demo_env_def world0_def halted.equality)

subsection \<open>The status of a result\<close>

text \<open>
  Claim C9.  Whenever \<open>invoke\<close> returns a record, in the bundle or in the module source,
  its status is \<open>success\<close>.
\<close>

theorem invoke_status_always_success:
  "(invoke_dist E p c w = (Inr r, w') \<longrightarrow> status r = ''success'')
   \<and> (invoke_script E u b a w = (Inr r, w') \<longrightarrow> status r = ''success'')"
  by (auto simp: invoke_dist_def invoke_script_def Let_def
      split: if_splits sum.splits dest: try_steps_status)

theorem invoke_status_always_success_witness:
  "\<exists>r w'. invoke_dist (demo_env [reply_records (Some [''u1'']), reply_records (Some [''s1'']),
                  reply False 404 ''Not Found''])
       demo_params demo_context world0 = (Inr r, w') \<and> status r = ''success''"
proof -
  let ?E = "demo_env [reply_records (Some [''u1'']), reply_records (Some [''s1'']),
                  reply False 404 ''Not Found'']"
  have "\<exists>r. fst (invoke_dist ?E demo_params demo_context world0) = Inr r"
    using invoke_dist_run(1) [where p = demo_params and c = demo_context and w = world0
     and E = ?E and u = "''john.doe@company.com''" and tok = "''token-123''"
     and url = "''https://mycompany.salesforce.com''"
     and ur = "\<lparr>ok = True, resp_status = 200, statusText = ''OK'',
               json_body = JsonObject (Some [\<lparr>sobject_Id = ''u1''\<rparr>])\<rparr>"
     and user = "\<lparr>sobject_Id = ''u1''\<rparr>" and others = "[]"
     and sr = "\<lparr>ok = True, resp_status = 200, statusText = ''OK'',
               json_body = JsonObject (Some [\<lparr>sobject_Id = ''s1''\<rparr>])\<rparr>"
     and recs = "Some [\<lparr>sobject_Id = ''s1''\<rparr>]", OF _ _ _ _ _ _ _ _ _ _ _ _ refl]
    by (simp add: demo_defs)
  then obtain r w' where run: "invoke_dist ?E demo_params demo_context world0 = (Inr r, w')"
    by (cases "invoke_dist ?E demo_params demo_context world0") auto
  from invoke_status_always_success [of ?E demo_params demo_context world0 r w']
  have "status r = ''success''" using run by simp
  with run show ?thesis by blast
qed

subsection \<open>A session query without records\<close>

text \<open>
  Claim C10.  When the session query succeeds and its body has no \<^verbatim>\<open>records\<close> field,
  \<open>invoke\<close> takes the list of sessions to be empty: it returns status \<open>success\<close> with
  \<open>sessionsRevoked = 0\<close> and makes no delete call.  (For the user query the same body is
  the user-not-found error of claim C3.)
\<close>

theorem invoke_sessions_without_records:
  assumes valid: "dp_username p = Some u" "u \<noteq> []"
      "SALESFORCE_ACCESS_TOKEN c = Some tok" "tok \<noteq> []"
      "SALESFORCE_INSTANCE_URL c = Some url" "url \<noteq> []"
    and user: "fetch E (length (calls w))
        (dist_request url tok (userQueryEndpoint (dist_apiVersion p) (encodeURIComponent u)) ''GET'')
        = Inr ur"
      "ok ur" "json_body ur = JsonObject (Some (user # others))"
    and sess: "fetch E (length (calls w) + 1)
        (dist_request url tok (sessionQueryEndpoint (dist_apiVersion p) (sobject_Id user)) ''GET'')
        = Inr sr"
      "ok sr" "json_body sr = JsonObject None"
  shows "\<exists>r w'. invoke_dist E p c w = (Inr r, w')
     \<and> status r = ''success'' \<and> sessionsRevoked r = 0
     \<and> calls w' = calls w @
          [dist_request url tok (userQueryEndpoint (dist_apiVersion p) (encodeURIComponent u)) ''GET'',
           dist_request url tok (sessionQueryEndpoint (dist_apiVersion p) (sobject_Id user)) ''GET'']"
proof -
  note run = invoke_dist_run [OF valid user sess refl]
  show ?thesis
    using run(1,2) by (cases "invoke_dist E p c w") auto
qed

theorem invoke_sessions_without_records_witness:
  "\<exists>r w'. invoke_dist (demo_env [reply_records (Some [''u1'']), reply_records None])
       demo_params demo_context world0 = (Inr r, w')
     \<and> status r = ''success'' \<and> sessionsRevoked r = 0 \<and> length (calls w') = 2"
  using invoke_sessions_without_records [where p = demo_params and c = demo_context and w = world0
     and E = "demo_env [reply_records (Some [''u1'']), reply_records None]"
     and u = "''john.doe@company.com''" and tok = "''token-123''"
     and url = "''https://mycompany.salesforce.com''"
     and ur = "\<lparr>ok = True, resp_status = 200, statusText = ''OK'',
               json_body = JsonObject (Some [\<lparr>sobject_Id = ''u1''\<rparr>])\<rparr>"
     and user = "\<lparr>sobject_Id = ''u1''\<rparr>" and others = "[]"
     and sr = "\<lparr>ok = True, resp_status = 200, statusText = ''OK'',
               json_body = JsonObject None\<rparr>"]
  apply (simp add: demo_defs)
  by (elim exE conjE) (intro exI conjI, assumption+, simp)

end
